theory Spec2Isabelle
  imports Complex_Main
begin

section \<open>JSON values and the JavaScript coercions used by \<open>dist/js/api.js\<close>\<close>

text \<open>
  Strings are byte strings: a JavaScript string is represented by its UTF-8 encoding,
  which is the form in which it reaches the wire. JSON numbers are kept exact.
\<close>

datatype json =
    JNull
  | JBool bool
  | JNum real
  | JStr string
  | JArr "json list"
  | JObj "(string \<times> json) list"

text \<open>JavaScript truthiness of a parsed JSON value (the left operand of \<open>||\<close>).\<close>

fun truthy :: "json \<Rightarrow> bool" where
  "truthy JNull = False"
| "truthy (JBool b) = b"
| "truthy (JNum n) = (n \<noteq> 0)"
| "truthy (JStr s) = (s \<noteq> [])"
| "truthy (JArr xs) = True"
| "truthy (JObj kvs) = True"

fun intercalate :: "string \<Rightarrow> string list \<Rightarrow> string" where
  "intercalate sep [] = []"
| "intercalate sep [x] = x"
| "intercalate sep (x # y # ys) = x @ sep @ intercalate sep (y # ys)"

text \<open>
  \<open>ToString\<close> of a parsed JSON value, as the \<open>Error\<close> constructor applies it to its
  message argument; \<open>None\<close> is the \<open>TypeError\<close> that the conversion throws. The
  rendering of a number is the platform's and is a parameter. An array is joined with
  commas, \<open>null\<close> elements giving the empty string. An object is converted through its
  \<open>toString\<close> member: the inherited one yields \<open>[object Object]\<close>, but an own member
  named \<open>toString\<close> hides it, and since no parsed value is callable the conversion then
  finds no primitive and throws.
\<close>

fun to_string :: "(real \<Rightarrow> string) \<Rightarrow> json \<Rightarrow> string option" where
  "to_string ns JNull = Some ''null''"
| "to_string ns (JBool b) = Some (if b then ''true'' else ''false'')"
| "to_string ns (JNum n) = Some (ns n)"
| "to_string ns (JStr s) = Some s"
| "to_string ns (JArr xs) =
     map_option (intercalate '','')
       (those (map (\<lambda>x. if x = JNull then Some [] else to_string ns x) xs))"
| "to_string ns (JObj kvs) =
     (if map_of kvs ''toString'' = None then Some ''[object Object]'' else None)"

text \<open>Own member of a parsed JSON object; \<open>JSON.parse\<close> keeps the last duplicate.\<close>

fun json_member :: "string \<Rightarrow> json \<Rightarrow> json option" where
  "json_member k (JObj kvs) = map_of (rev kvs) k"
| "json_member k v = None"

text \<open>
  Decimal rendering of a non-negative integer (\<open>${response.status}\<close>). The digit
  table is only read at indices below 16.
\<close>

definition digit_char :: "nat \<Rightarrow> char" where
  "digit_char d = (''0123456789ABCDEF'') ! d"

fun decimal :: "nat \<Rightarrow> string" where
  "decimal n = (if n < 10 then [digit_char n] else decimal (n div 10) @ [digit_char (n mod 10)])"

declare decimal.simps [simp del]

section \<open>Errors, envelopes and the network interface\<close>

text \<open>
  The value caught by \<open>catch (error)\<close>. Platform errors (\<open>DOMException\<close>, \<open>TypeError\<close>,
  \<open>SyntaxError\<close>) carry a name and a message; class \<open>APIError\<close> adds \<open>status\<close> and
  \<open>data\<close>. \<open>None\<close> is an absent property (\<open>undefined\<close>).
\<close>

record thrown =
  name :: string
  message :: string
  status :: "nat option"
  data :: "json option"

definition platform_error :: "string \<Rightarrow> string \<Rightarrow> thrown" where
  "platform_error n m = \<lparr>name = n, message = m, status = None, data = None\<rparr>"

text \<open>
  \<open>class APIError extends Error\<close>: \<open>super(message)\<close> stores the string form of the
  message, then \<open>name\<close>, \<open>status\<close> and \<open>data\<close> are assigned.
\<close>

definition APIError :: "string \<Rightarrow> nat \<Rightarrow> json \<Rightarrow> thrown" where
  "APIError msg st d = \<lparr>name = ''APIError'', message = msg, status = Some st, data = Some d\<rparr>"

text \<open>
  How a piece of asynchronous code ends: it returns a value (its promise is fulfilled),
  it throws (its promise is rejected), or it never settles.
\<close>

datatype 'a completion = Returned 'a | Threw thrown | Pending

text \<open>
  The response envelope: \<open>{success: true, data}\<close> or \<open>{success: false, error}\<close>.
  The \<open>error\<close> member always has a message; \<open>fetchData\<close> also sets \<open>status\<close> and
  \<open>data\<close>, \<open>getChartData\<close> and \<open>getMockChartData\<close> do not.
\<close>

record error_info =
  error_message :: string
  error_status :: "nat option"
  error_data :: "json option"

datatype envelope = Success json | Failure error_info

text \<open>
  The options object given to \<open>fetch\<close>, restricted to the members this repository
  sets; \<open>None\<close> is an absent member.
\<close>

record fetch_options =
  http_method :: "string option"
  headers :: "(string \<times> string) list option"
  body :: "string option"

definition no_options :: fetch_options where
  "no_options = \<lparr>http_method = None, headers = None, body = None\<rparr>"

text \<open>
  One call of \<open>fetch(url, {...defaultOptions, signal})\<close>: the URL, the merged options
  and the delay after which the controller's signal aborts the call.
\<close>

record request =
  url :: string
  init :: fetch_options
  abort_after :: nat

text \<open>
  What one network call does. \<open>fetch\<close> either rejects with an error (name, message):
  \<open>AbortError\<close> when the signal fired because no response arrived within
  \<open>abort_after\<close>, \<open>TypeError\<close> on a transport failure; or it resolves with a response.
  Once \<open>fetch\<close> has resolved, \<open>clearTimeout\<close> disarms the timer, so nothing bounds the
  reading of the body: \<open>response.json()\<close> yields the parsed body, rejects, or, when the
  body never finishes, stays pending for ever.
\<close>

datatype body_result = Parsed json | BodyError string string | Stalled

datatype fetch_outcome = Rejected string string | Responded nat body_result

text \<open>
  The platform: the network as a function of the request and a world state, and the
  renderings that the language leaves to the engine.
\<close>

record 'w runtime =
  fetch :: "request \<Rightarrow> 'w \<Rightarrow> fetch_outcome \<times> 'w"
  number_to_string :: "real \<Rightarrow> string"
  function_to_string :: "string \<Rightarrow> string"
  null_read_message :: "string \<Rightarrow> string"
  to_primitive_message :: string

text \<open>The observable effects of a call, in order.\<close>

datatype event = Fetch request | Sleep nat

section \<open>Configuration (\<open>config.js\<close>)\<close>

record endpoints =
  NTP_BULANAN :: string
  NTP_INDEKS_DITERIMA_DIBAYAR :: string
  NTP_PER_SUBSEKTOR :: string
  TPAK_TAHUNAN :: string
  TPT_TAHUNAN :: string
  KOMPOSISI_TENAGA_KERJA :: string
  INFLASI :: string
  PENGELUARAN :: string
  KEMISKINAN :: string
  IPM :: string
  KETENAGAKERJAAN :: string
  FEEDBACK :: string
  KPI :: string

record retry_config =
  MAX_ATTEMPTS :: nat
  DELAY :: nat

record api_config =
  BASE_URL :: string
  ENDPOINTS :: endpoints
  TIMEOUT :: nat
  RETRY :: retry_config

definition API_CONFIG :: api_config where
  "API_CONFIG = \<lparr>
     BASE_URL = ''http://localhost:3000/api'',
     ENDPOINTS = \<lparr>
       NTP_BULANAN = ''/ntp/bulanan'',
       NTP_INDEKS_DITERIMA_DIBAYAR = ''/ntp/indeks-diterima-dibayar'',
       NTP_PER_SUBSEKTOR = ''/ntp/per-subsektor'',
       TPAK_TAHUNAN = ''/ketenagakerjaan/tpak-tahunan'',
       TPT_TAHUNAN = ''/ketenagakerjaan/tpt-tahunan'',
       KOMPOSISI_TENAGA_KERJA = ''/ketenagakerjaan/komposisi-sektor'',
       INFLASI = ''/inflasi'',
       PENGELUARAN = ''/pengeluaran'',
       KEMISKINAN = ''/kemiskinan'',
       IPM = ''/ipm'',
       KETENAGAKERJAAN = ''/ketenagakerjaan'',
       FEEDBACK = ''/feedback'',
       KPI = ''/kpi''\<rparr>,
     TIMEOUT = 30000,
     RETRY = \<lparr>MAX_ATTEMPTS = 3, DELAY = 1000\<rparr>\<rparr>"

section \<open>\<open>fetchData\<close>\<close>

text \<open>\<open>response.ok\<close>: the status is in the range 200 to 299.\<close>

definition response_ok :: "nat \<Rightarrow> bool" where
  "response_ok st \<longleftrightarrow> 200 \<le> st \<and> st \<le> 299"

text \<open>
  \<open>errorData.message\<close>: reading a property of \<open>null\<close> throws a \<open>TypeError\<close>; every
  other parsed value yields its own member or \<open>undefined\<close>.
\<close>

definition read_message :: "'w runtime \<Rightarrow> json \<Rightarrow> thrown + json option" where
  "read_message rt errorData =
     (if errorData = JNull
      then Inl (platform_error ''TypeError'' (null_read_message rt ''message''))
      else Inr (json_member ''message'' errorData))"

text \<open>The request that \<open>fetchData\<close> builds before the \<open>try\<close> block.\<close>

definition build_request :: "api_config \<Rightarrow> string \<Rightarrow> fetch_options \<Rightarrow> request" where
  "build_request cfg endpoint options =
     \<lparr>url = BASE_URL cfg @ endpoint,
      init = \<lparr>http_method = (case http_method options of None \<Rightarrow> Some ''GET'' | Some m \<Rightarrow> Some m),
              headers = (case headers options of
                           None \<Rightarrow> Some [(''Content-Type'', ''application/json'')]
                         | Some h \<Rightarrow> Some h),
              body = body options\<rparr>,
      abort_after = TIMEOUT cfg\<rparr>"

text \<open>
  The message handed to \<open>new APIError\<close>: \<open>errorData.message || `HTTP error! status:
  ${response.status}`\<close>, converted to a string by \<open>super(message)\<close>. \<open>None\<close> is the
  \<open>TypeError\<close> of a failed conversion.
\<close>

definition error_text :: "'w runtime \<Rightarrow> nat \<Rightarrow> json option \<Rightarrow> string option" where
  "error_text rt st m =
     (case m of
        Some v \<Rightarrow> if truthy v then to_string (number_to_string rt) v
                  else Some (''HTTP error! status: '' @ decimal st)
      | None \<Rightarrow> Some (''HTTP error! status: '' @ decimal st))"

text \<open>
  \<open>await response.json().catch(() => ({}))\<close>: the parsed body, the empty object when
  the reading rejects, and no value at all (\<open>None\<close>) when the reading stays pending.
\<close>

fun error_body :: "body_result \<Rightarrow> json option" where
  "error_body (Parsed j) = Some j"
| "error_body (BodyError n m) = Some (JObj [])"
| "error_body Stalled = None"

text \<open>
  The body of the \<open>try\<close> block: one network call, then either the parsed data is
  returned, or an error is thrown, or the block waits for ever on a body that never
  finishes.
\<close>

definition try_block :: "'w runtime \<Rightarrow> request \<Rightarrow> 'w \<Rightarrow> json completion \<times> 'w" where
  "try_block rt req w =
     (case fetch rt req w of
        (Rejected n m, w') \<Rightarrow> (Threw (platform_error n m), w')
      | (Responded st b, w') \<Rightarrow>
          if \<not> response_ok st then
            (case error_body b of
               None \<Rightarrow> (Pending, w')
             | Some errorData \<Rightarrow>
                (case read_message rt errorData of
                   Inl e \<Rightarrow> (Threw e, w')
                 | Inr m \<Rightarrow>
                     (case error_text rt st m of
                        None \<Rightarrow>
                          (Threw (platform_error ''TypeError'' (to_primitive_message rt)), w')
                      | Some msg \<Rightarrow> (Threw (APIError msg st errorData), w'))))
          else
            (case b of
               Parsed j \<Rightarrow> (Returned j, w')
             | BodyError n m \<Rightarrow> (Threw (platform_error n m), w')
             | Stalled \<Rightarrow> (Pending, w')))"

text \<open>The envelope built at the end of the \<open>catch\<close> block.\<close>

definition error_response :: "thrown \<Rightarrow> envelope" where
  "error_response error =
     Failure \<lparr>
       error_message = (if message error \<noteq> [] then message error
                        else ''An unexpected error occurred''),
       error_status = Some (case status error of None \<Rightarrow> 0 | Some s \<Rightarrow> if s \<noteq> 0 then s else 0),
       error_data = Some (case data error of None \<Rightarrow> JNull
                          | Some d \<Rightarrow> if truthy d then d else JNull)\<rparr>"

definition retryable :: "thrown \<Rightarrow> bool" where
  "retryable error \<longleftrightarrow> name error = ''AbortError'' \<or> name error = ''TypeError''"

text \<open>
  \<open>fetchData(endpoint, options, retryCount)\<close>. The result is how the call ends (the
  envelope it returns, or that it never returns), the effects in order, and the world
  after the call.
\<close>

function fetchData ::
  "'w runtime \<Rightarrow> api_config \<Rightarrow> string \<Rightarrow> fetch_options \<Rightarrow> nat \<Rightarrow> 'w
     \<Rightarrow> envelope completion \<times> event list \<times> 'w"
where
  "fetchData rt cfg endpoint options retryCount w =
     (let req = build_request cfg endpoint options in
      case try_block rt req w of
        (Returned d, w') \<Rightarrow> (Returned (Success d), [Fetch req], w')
      | (Pending, w') \<Rightarrow> (Pending, [Fetch req], w')
      | (Threw error, w') \<Rightarrow>
          if retryCount < MAX_ATTEMPTS (RETRY cfg) \<and> retryable error then
            (case fetchData rt cfg endpoint options (retryCount + 1) w' of
               (r, evs, w'') \<Rightarrow>
                 (r, Fetch req # Sleep (DELAY (RETRY cfg) * (retryCount + 1)) # evs, w''))
          else (Returned (error_response error), [Fetch req], w'))"
  by pat_completeness auto
termination
  by (relation "measure (\<lambda>(rt, cfg, endpoint, options, retryCount, w).
                   MAX_ATTEMPTS (RETRY cfg) - retryCount)") auto

declare fetchData.simps [simp del]

section \<open>Property lookup on object literals\<close>

text \<open>
  \<open>obj[key]\<close> on an object literal finds the literal's own members first and then
  the members of \<open>Object.prototype\<close>: native functions, and the \<open>__proto__\<close> accessor,
  which yields \<open>Object.prototype\<close> itself. All of these are truthy.
\<close>

datatype proto_member = NativeFunction string | ObjectPrototype

definition Object_prototype :: "(string \<times> proto_member) list" where
  "Object_prototype =
     [(''constructor'', NativeFunction ''Object''),
      (''__defineGetter__'', NativeFunction ''__defineGetter__''),
      (''__defineSetter__'', NativeFunction ''__defineSetter__''),
      (''hasOwnProperty'', NativeFunction ''hasOwnProperty''),
      (''__lookupGetter__'', NativeFunction ''__lookupGetter__''),
      (''__lookupSetter__'', NativeFunction ''__lookupSetter__''),
      (''isPrototypeOf'', NativeFunction ''isPrototypeOf''),
      (''propertyIsEnumerable'', NativeFunction ''propertyIsEnumerable''),
      (''toString'', NativeFunction ''toString''),
      (''valueOf'', NativeFunction ''valueOf''),
      (''__proto__'', ObjectPrototype),
      (''toLocaleString'', NativeFunction ''toLocaleString'')]"

datatype 'a property = Own 'a | Inherited proto_member | Undefined

definition get_property :: "(string \<times> 'a) list \<Rightarrow> string \<Rightarrow> 'a property" where
  "get_property obj key =
     (case map_of obj key of
        Some v \<Rightarrow> Own v
      | None \<Rightarrow> (case map_of Object_prototype key of
                   Some m \<Rightarrow> Inherited m
                 | None \<Rightarrow> Undefined))"

text \<open>Truthiness and template-literal rendering of a looked-up endpoint.\<close>

fun endpoint_truthy :: "string property \<Rightarrow> bool" where
  "endpoint_truthy (Own s) = (s \<noteq> [])"
| "endpoint_truthy (Inherited m) = True"
| "endpoint_truthy Undefined = False"

fun endpoint_text :: "'w runtime \<Rightarrow> string property \<Rightarrow> string" where
  "endpoint_text rt (Own s) = s"
| "endpoint_text rt (Inherited (NativeFunction f)) = function_to_string rt f"
| "endpoint_text rt (Inherited ObjectPrototype) = ''[object Object]''"
| "endpoint_text rt Undefined = ''undefined''"

section \<open>\<open>new URLSearchParams(filters).toString()\<close>\<close>

text \<open>
  The filter object is the list of its own members in enumeration order, names and
  values being strings. The serialiser leaves ASCII letters, digits and \<open>*-._\<close> as
  they are, writes a space as \<open>+\<close> and every other byte as \<open>%\<close> and two upper-case
  hexadecimal digits.
\<close>

definition form_safe :: string where
  "form_safe = ''ABCDEFGHIJKLMNOPQRSTUVWXYZabcdefghijklmnopqrstuvwxyz0123456789*-._''"

definition encode_byte :: "char \<Rightarrow> string" where
  "encode_byte c =
     (if c \<in> set form_safe then [c]
      else if c = CHR '' '' then ''+''
      else [CHR ''%'', digit_char (of_char c div 16), digit_char (of_char c mod 16)])"

definition form_encode :: "string \<Rightarrow> string" where
  "form_encode s = concat (map encode_byte s)"

definition URLSearchParams_toString :: "(string \<times> string) list \<Rightarrow> string" where
  "URLSearchParams_toString filters =
     intercalate ''&'' (map (\<lambda>(k, v). form_encode k @ ''='' @ form_encode v) filters)"

section \<open>Mock data (\<open>getMockChartData\<close>)\<close>

definition labels_of :: "string list \<Rightarrow> json" where
  "labels_of xs = JArr (map JStr xs)"

definition values_of :: "real list \<Rightarrow> json" where
  "values_of xs = JArr (map JNum xs)"

definition single_series :: "string \<Rightarrow> string list \<Rightarrow> real list \<Rightarrow> string \<Rightarrow> envelope" where
  "single_series t ls vs p =
     Success (JObj [(''title'', JStr t), (''labels'', labels_of ls),
                    (''values'', values_of vs), (''period'', JStr p)])"

definition dataset :: "string \<Rightarrow> real list \<Rightarrow> string \<Rightarrow> json" where
  "dataset l vs c = JObj [(''label'', JStr l), (''values'', values_of vs), (''color'', JStr c)]"

definition multi_series :: "string \<Rightarrow> string list \<Rightarrow> json list \<Rightarrow> string \<Rightarrow> envelope" where
  "multi_series t ls ds p =
     Success (JObj [(''title'', JStr t), (''labels'', labels_of ls),
                    (''datasets'', JArr ds), (''period'', JStr p)])"

definition months :: "string list" where
  "months = [''Jan'', ''Feb'', ''Mar'', ''Apr'', ''Mei'', ''Jun'',
             ''Jul'', ''Agu'', ''Sep'', ''Okt'', ''Nov'', ''Des'']"

definition years :: "string list" where
  "years = [''2020'', ''2021'', ''2022'', ''2023'', ''2024'']"

definition mockData :: "(string \<times> envelope) list" where
  "mockData =
     [(''ntp-bulanan'',
        single_series ''NTP Bulanan (Nilai Tukar Petani)'' months
          [105.2, 104.8, 105.5, 105.1, 104.9, 105.3, 105.7, 105.4, 105.6, 105.8, 105.9, 106.1]
          ''Januari - Desember 2024''),
      (''ntp-indeks'',
        multi_series ''Indeks Diterima vs Dibayar Petani'' months
          [dataset ''Indeks Diterima (It)''
             [105.2, 105.5, 106.0, 105.8, 105.6, 105.9, 106.2, 106.0, 106.3, 106.5, 106.7, 107.0]
             ''#003D7A'',
           dataset ''Indeks Dibayar (Ib)''
             [100.0, 100.2, 100.5, 100.3, 100.1, 100.4, 100.6, 100.4, 100.7, 100.9, 101.1, 101.3]
             ''#4FC3F7'']
          ''Januari - Desember 2024''),
      (''ntp-subsektor'',
        single_series ''NTP per Subsektor''
          [''Tanaman Pangan'', ''Hortikultura'', ''Perkebunan'', ''Peternakan'', ''Perikanan'']
          [105.2, 104.8, 105.5, 105.1, 104.9]
          ''2024''),
      (''tpak'',
        single_series ''TPAK Tahunan (Tingkat Partisipasi Angkatan Kerja)'' years
          [68.5, 69.2, 69.8, 70.1, 70.5]
          ''2020-2024''),
      (''tpt'',
        single_series ''TPT Tahunan (Tingkat Pengangguran Terbuka)'' years
          [4.2, 4.8, 5.1, 4.9, 4.5]
          ''2020-2024''),
      (''komposisi-tenaga-kerja'',
        multi_series ''Komposisi Tenaga Kerja per Sektor'' years
          [dataset ''Pertanian'' [35, 34, 33, 32, 31] ''#4CAF50'',
           dataset ''Industri'' [15, 16, 17, 18, 19] ''#2196F3'',
           dataset ''Jasa'' [25, 26, 27, 28, 29] ''#FF9800'',
           dataset ''Konstruksi'' [10, 11, 12, 13, 14] ''#9C27B0'',
           dataset ''Lainnya'' [15, 13, 11, 9, 7] ''#F44336'']
          ''2020-2024''),
      (''inflasi'',
        single_series ''Inflasi (IHK 2022=100) Bulanan''
          [''Jan'', ''Feb'', ''Mar'', ''Apr'', ''Mei'', ''Jun'']
          [2.1, 2.3, 2.0, 2.4, 2.2, 2.5]
          ''Januari - Juni 2024''),
      (''pengeluaran'',
        single_series ''Komposisi Pengeluaran''
          [''Makanan'', ''Perumahan'', ''Transportasi'', ''Lainnya'']
          [45, 25, 20, 10]
          ''2024''),
      (''kemiskinan'',
        single_series ''Persentase Penduduk Miskin''
          [''Maret 2020'', ''Sept 2020'', ''Maret 2021'', ''Sept 2021'', ''Maret 2022'', ''Sept 2022'']
          [20.5, 19.8, 19.2, 18.9, 18.5, 18.1]
          ''2020-2022''),
      (''ipm'',
        single_series ''Indeks Pembangunan Manusia (IPM)'' years
          [65.2, 65.8, 66.4, 67.1, 67.8]
          ''2020-2024''),
      (''ketenagakerjaan'',
        single_series ''Tingkat Pengangguran Terbuka (TPT)'' years
          [4.2, 4.8, 5.1, 4.9, 4.5]
          ''2020-2024'')]"

text \<open>
  The value that \<open>getChartData\<close> hands back: an envelope, or, when the lookup in
  \<open>getMockChartData\<close> finds an inherited member, that member itself.
\<close>

datatype chart_value = Envelope envelope | Member proto_member

definition getMockChartData :: "string \<Rightarrow> (string \<times> string) list \<Rightarrow> chart_value" where
  "getMockChartData visualizationType filters =
     (case get_property mockData visualizationType of
        Own e \<Rightarrow> Envelope e
      | Inherited m \<Rightarrow> Member m
      | Undefined \<Rightarrow>
          Envelope (Failure \<lparr>
            error_message = ''Mock data not found for: '' @ visualizationType,
            error_status = None, error_data = None\<rparr>))"

section \<open>\<open>getChartData\<close>\<close>

text \<open>The constant as the repository ships it; the functions take the flag as an argument.\<close>

definition USE_MOCK_DATA :: bool where
  "USE_MOCK_DATA = True"

definition endpointMap :: "api_config \<Rightarrow> (string \<times> string) list" where
  "endpointMap cfg =
     [(''ntp-bulanan'', NTP_BULANAN (ENDPOINTS cfg)),
      (''ntp-indeks'', NTP_INDEKS_DITERIMA_DIBAYAR (ENDPOINTS cfg)),
      (''ntp-subsektor'', NTP_PER_SUBSEKTOR (ENDPOINTS cfg)),
      (''tpak'', TPAK_TAHUNAN (ENDPOINTS cfg)),
      (''tpt'', TPT_TAHUNAN (ENDPOINTS cfg)),
      (''komposisi-tenaga-kerja'', KOMPOSISI_TENAGA_KERJA (ENDPOINTS cfg)),
      (''inflasi'', INFLASI (ENDPOINTS cfg)),
      (''pengeluaran'', PENGELUARAN (ENDPOINTS cfg)),
      (''kemiskinan'', KEMISKINAN (ENDPOINTS cfg)),
      (''ipm'', IPM (ENDPOINTS cfg)),
      (''ketenagakerjaan'', KETENAGAKERJAAN (ENDPOINTS cfg))]"

definition getChartData ::
  "'w runtime \<Rightarrow> api_config \<Rightarrow> bool \<Rightarrow> string \<Rightarrow> (string \<times> string) list \<Rightarrow> 'w
     \<Rightarrow> chart_value completion \<times> event list \<times> 'w"
where
  "getChartData rt cfg use_mock visualizationType filters w =
     (if use_mock then (Returned (getMockChartData visualizationType filters), [Sleep 500], w)
      else
        (let endpoint = get_property (endpointMap cfg) visualizationType in
         if \<not> endpoint_truthy endpoint then
           (Returned (Envelope (Failure \<lparr>
              error_message = ''Unknown visualization type: '' @ visualizationType,
              error_status = None, error_data = None\<rparr>)), [], w)
         else
           (let queryParams = URLSearchParams_toString filters;
                fullEndpoint = endpoint_text rt endpoint
                               @ (if queryParams \<noteq> [] then ''?'' @ queryParams else [])
            in case fetchData rt cfg fullEndpoint no_options 0 w of
                 (r, evs, w') \<Rightarrow> (map_completion Envelope r, evs, w'))))"

text \<open>
  \<open>return await fetchData(fullEndpoint)\<close> hands on the envelope when the inner call
  returns one and stays pending when it does not; \<open>map_completion\<close> is that.
  Projections of a result, and the URLs requested in a run.
\<close>

definition result_of :: "'a \<times> event list \<times> 'w \<Rightarrow> 'a" where
  "result_of r = fst r"

definition events_of :: "'a \<times> event list \<times> 'w \<Rightarrow> event list" where
  "events_of r = fst (snd r)"

fun fetched_urls :: "event list \<Rightarrow> string list" where
  "fetched_urls [] = []"
| "fetched_urls (Fetch req # evs) = url req # fetched_urls evs"
| "fetched_urls (Sleep d # evs) = fetched_urls evs"

fun sleeps :: "event list \<Rightarrow> nat list" where
  "sleeps [] = []"
| "sleeps (Fetch req # evs) = sleeps evs"
| "sleeps (Sleep d # evs) = d # sleeps evs"

section \<open>Test doubles\<close>

text \<open>
  A scripted network for concrete runs: the world is the number of calls made so far,
  the \<open>i\<close>-th call yields the \<open>i\<close>-th outcome of the script, and the last outcome
  repeats. The error messages and the text of a native function are those that V8
  prints. Numbers are rendered for integers only, in plain decimal as every engine does
  below \<open>10^21\<close>; no run in this development renders any other number, and for those
  the field holds a placeholder.
\<close>

definition integer_text :: "real \<Rightarrow> string" where
  "integer_text r =
     (if r = of_int \<lfloor>r\<rfloor>
      then (if r < 0 then ''-'' @ decimal (nat (- \<lfloor>r\<rfloor>)) else decimal (nat \<lfloor>r\<rfloor>))
      else ''NaN'')"

definition scripted :: "fetch_outcome list \<Rightarrow> nat runtime" where
  "scripted script =
     \<lparr>fetch = (\<lambda>req i. ((case drop i script of
                            x # xs \<Rightarrow> x
                          | [] \<Rightarrow> (if script = [] then Rejected ''TypeError'' ''Failed to fetch''
                                   else last script)), Suc i)),
      number_to_string = integer_text,
      function_to_string = (\<lambda>f. ''function '' @ f @ ''() { [native code] }''),
      null_read_message =
        (\<lambda>p. ''Cannot read properties of null (reading '' @ [CHR 0x27] @ p @ [CHR 0x27] @ '')''),
      to_primitive_message = ''Cannot convert object to primitive value''\<rparr>"

text \<open>The table of logical keys and endpoint paths as the specification documents it.\<close>

definition documented_endpoints :: "(string \<times> string) list" where
  "documented_endpoints =
     [(''ntp-bulanan'', ''/ntp/bulanan''),
      (''ntp-indeks'', ''/ntp/indeks-diterima-dibayar''),
      (''ntp-subsektor'', ''/ntp/per-subsektor''),
      (''tpak'', ''/ketenagakerjaan/tpak-tahunan''),
      (''tpt'', ''/ketenagakerjaan/tpt-tahunan''),
      (''komposisi-tenaga-kerja'', ''/ketenagakerjaan/komposisi-sektor''),
      (''inflasi'', ''/inflasi''),
      (''pengeluaran'', ''/pengeluaran''),
      (''kemiskinan'', ''/kemiskinan''),
      (''ipm'', ''/ipm''),
      (''ketenagakerjaan'', ''/ketenagakerjaan'')]"

text \<open>An executor that times out on every call, with the abort message \<open>m\<close>.\<close>

definition always_times_out :: "'w runtime \<Rightarrow> string \<Rightarrow> bool" where
  "always_times_out rt m \<longleftrightarrow> (\<forall>req w. fst (fetch rt req w) = Rejected ''AbortError'' m)"


text \<open>The effects of an initial call followed by \<open>n\<close> retries with linear back-off.\<close>

definition retry_schedule :: "request \<Rightarrow> nat \<Rightarrow> nat \<Rightarrow> event list" where
  "retry_schedule req base_delay n =
     Fetch req # concat (map (\<lambda>k. [Sleep (base_delay * k), Fetch req]) [1..<Suc n])"

section \<open>Stepping \<open>fetchData\<close>\<close>

text \<open>
  One equation per way out of \<open>fetchData\<close>: the data came back, the error is
  retried, or the error is returned.
\<close>

lemma fetchData_success:
  assumes "try_block rt (build_request cfg endpoint options) w = (Returned d, w')"
  shows "fetchData rt cfg endpoint options retryCount w
           = (Returned (Success d), [Fetch (build_request cfg endpoint options)], w')"
  using assms by (simp add: fetchData.simps)

lemma fetchData_pending:
  assumes "try_block rt (build_request cfg endpoint options) w = (Pending, w')"
  shows "fetchData rt cfg endpoint options retryCount w
           = (Pending, [Fetch (build_request cfg endpoint options)], w')"
  using assms by (simp add: fetchData.simps)

lemma fetchData_retry:
  assumes "try_block rt (build_request cfg endpoint options) w = (Threw error, w')"
    and "retryCount < MAX_ATTEMPTS (RETRY cfg)" and "retryable error"
    and "fetchData rt cfg endpoint options (Suc retryCount) w' = (r, evs, w'')"
  shows "fetchData rt cfg endpoint options retryCount w
           = (r, Fetch (build_request cfg endpoint options)
                  # Sleep (DELAY (RETRY cfg) * Suc retryCount) # evs, w'')"
  using assms by (subst fetchData.simps) simp

lemma fetchData_give_up:
  assumes "try_block rt (build_request cfg endpoint options) w = (Threw error, w')"
    and "\<not> (retryCount < MAX_ATTEMPTS (RETRY cfg) \<and> retryable error)"
  shows "fetchData rt cfg endpoint options retryCount w
           = (Returned (error_response error), [Fetch (build_request cfg endpoint options)], w')"
  using assms by (subst fetchData.simps) auto

lemma try_block_rejected:
  "fetch rt req w = (Rejected n m, w') \<Longrightarrow> try_block rt req w = (Threw (platform_error n m), w')"
  by (simp add: try_block_def)

lemma try_block_parsed:
  "fetch rt req w = (Responded st (Parsed d), w') \<Longrightarrow> response_ok st
     \<Longrightarrow> try_block rt req w = (Returned d, w')"
  by (simp add: try_block_def)

text \<open>
  Every network call of one \<open>fetchData\<close> goes to the same URL, and there is at
  least one.
\<close>

lemma fetchData_urls:
  "set (fetched_urls (events_of (fetchData rt cfg endpoint options retryCount w)))
     = {BASE_URL cfg @ endpoint}"
proof (induction rt cfg endpoint options retryCount w rule: fetchData.induct)
  case (1 rt cfg endpoint options retryCount w)
  obtain t w' where t: "try_block rt (build_request cfg endpoint options) w = (t, w')"
    by (cases "try_block rt (build_request cfg endpoint options) w")
  show ?case
  proof (cases t)
    case (Returned d)
    with t show ?thesis
      by (simp add: fetchData_success events_of_def build_request_def)
  next
    case Pending
    with t show ?thesis
      by (simp add: fetchData_pending events_of_def build_request_def)
  next
    case (Threw error)
    show ?thesis
    proof (cases "retryCount < MAX_ATTEMPTS (RETRY cfg) \<and> retryable error")
      case True
      obtain r evs w'' where rec: "fetchData rt cfg endpoint options (Suc retryCount) w' = (r, evs, w'')"
        by (cases "fetchData rt cfg endpoint options (Suc retryCount) w'")
      from "1.IH"[OF refl t[symmetric] Threw] True rec
      have "set (fetched_urls evs) = {BASE_URL cfg @ endpoint}"
        by (simp add: events_of_def)
      with t Threw True rec show ?thesis
        by (simp add: fetchData_retry events_of_def build_request_def)
    next
      case False
      with t Threw show ?thesis
        by (simp add: fetchData_give_up events_of_def build_request_def)
    qed
  qed
qed

lemma fetched_urls_retry_schedule:
  "fetched_urls (retry_schedule req b n) = replicate (Suc n) (url req)"
proof -
  have "fetched_urls (concat (map (\<lambda>k. [Sleep (b * k), Fetch req]) ks)) = replicate (length ks) (url req)" for ks
    by (induction ks) simp_all
  then show ?thesis by (simp add: retry_schedule_def)
qed

lemma sleeps_retry_schedule:
  "sleeps (retry_schedule req b n) = map (\<lambda>k. b * k) [1..<Suc n]"
proof -
  have "sleeps (concat (map (\<lambda>k. [Sleep (b * k), Fetch req]) ks)) = map (\<lambda>k. b * k) ks" for ks
    by (induction ks) simp_all
  then show ?thesis by (simp add: retry_schedule_def)
qed

text \<open>
  If every attempt throws the same retryable error, all retries are used up.
\<close>

lemma fetchData_exhausts:
  assumes always: "\<And>w. fst (try_block rt (build_request cfg endpoint options) w) = Threw error"
    and retry: "retryable error"
    and le: "retryCount \<le> MAX_ATTEMPTS (RETRY cfg)"
  shows "result_of (fetchData rt cfg endpoint options retryCount w) = Returned (error_response error)
       \<and> events_of (fetchData rt cfg endpoint options retryCount w)
           = Fetch (build_request cfg endpoint options)
             # concat (map (\<lambda>k. [Sleep (DELAY (RETRY cfg) * k), Fetch (build_request cfg endpoint options)])
                         [Suc retryCount..<Suc (MAX_ATTEMPTS (RETRY cfg))])"
  using le
proof (induction "MAX_ATTEMPTS (RETRY cfg) - retryCount" arbitrary: retryCount w)
  case 0
  obtain w' where t: "try_block rt (build_request cfg endpoint options) w = (Threw error, w')"
    using always[of w] by (cases "try_block rt (build_request cfg endpoint options) w") simp
  from 0 have "\<not> (retryCount < MAX_ATTEMPTS (RETRY cfg) \<and> retryable error)" by simp
  from fetchData_give_up[OF t this] 0 show ?case
    by (simp add: result_of_def events_of_def)
next
  case (Suc d)
  obtain w' where t: "try_block rt (build_request cfg endpoint options) w = (Threw error, w')"
    using always[of w] by (cases "try_block rt (build_request cfg endpoint options) w") simp
  from Suc have lt: "retryCount < MAX_ATTEMPTS (RETRY cfg)" by simp
  obtain r evs w'' where rec: "fetchData rt cfg endpoint options (Suc retryCount) w' = (r, evs, w'')"
    by (cases "fetchData rt cfg endpoint options (Suc retryCount) w'")
  from Suc have "d = MAX_ATTEMPTS (RETRY cfg) - Suc retryCount" "Suc retryCount \<le> MAX_ATTEMPTS (RETRY cfg)"
    by simp_all
  from Suc.hyps(1)[OF this, of w'] rec
  have r: "r = Returned (error_response error)"
    and evs: "evs = Fetch (build_request cfg endpoint options)
             # concat (map (\<lambda>k. [Sleep (DELAY (RETRY cfg) * k), Fetch (build_request cfg endpoint options)])
                         [Suc (Suc retryCount)..<Suc (MAX_ATTEMPTS (RETRY cfg))])"
    by (simp_all add: result_of_def events_of_def)
  have upt: "[Suc retryCount..<Suc (MAX_ATTEMPTS (RETRY cfg))]
               = Suc retryCount # [Suc (Suc retryCount)..<Suc (MAX_ATTEMPTS (RETRY cfg))]"
    using lt by (simp add: upt_conv_Cons)
  from fetchData_retry[OF t lt retry rec] r evs show ?case
    by (simp add: result_of_def events_of_def upt del: upt_Suc)
qed

lemma try_block_times_out:
  assumes "always_times_out rt m"
  shows "fst (try_block rt req w) = Threw (platform_error ''AbortError'' m)"
proof -
  from assms have "fst (fetch rt req w) = Rejected ''AbortError'' m"
    by (simp add: always_times_out_def)
  then obtain w' where "fetch rt req w = (Rejected ''AbortError'' m, w')"
    by (cases "fetch rt req w") simp
  then show ?thesis by (simp add: try_block_rejected)
qed

lemma retryable_abort: "retryable (platform_error ''AbortError'' m)"
  by (simp add: retryable_def platform_error_def)

lemma retryable_type_error: "retryable (platform_error ''TypeError'' m)"
  by (simp add: retryable_def platform_error_def)

lemma not_retryable_APIError: "\<not> retryable (APIError m st d)"
  by (simp add: retryable_def APIError_def)



lemma error_response_APIError:
  "\<exists>m' d'. error_response (APIError m st d)
     = Failure \<lparr>error_message = m', error_status = Some st, error_data = Some d'\<rparr>"
  by (simp add: error_response_def APIError_def)

lemma try_block_null_body:
  assumes "fetch rt req w = (Responded st (Parsed JNull), w')" and "\<not> response_ok st"
  shows "try_block rt req w
           = (Threw (platform_error ''TypeError'' (null_read_message rt ''message'')), w')"
  using assms by (simp add: try_block_def read_message_def)

lemma try_block_unprintable_message:
  assumes "fetch rt req w = (Responded st b, w')" and "\<not> response_ok st"
    and "error_body b = Some errorData" and "errorData \<noteq> JNull"
    and "error_text rt st (json_member ''message'' errorData) = None"
  shows "try_block rt req w
           = (Threw (platform_error ''TypeError'' (to_primitive_message rt)), w')"
  using assms by (simp add: try_block_def read_message_def)

lemma try_block_status_failure:
  assumes "fetch rt req w = (Responded st b, w')" and "\<not> response_ok st"
    and "error_body b = Some errorData" and "errorData \<noteq> JNull"
    and "error_text rt st (json_member ''message'' errorData) = Some msg"
  shows "try_block rt req w = (Threw (APIError msg st errorData), w')"
  using assms by (simp add: try_block_def read_message_def)

subsection \<open>The scripted network and the shipped configuration\<close>

lemma drop_singleton_head: "drop i [x] = y # ys \<Longrightarrow> y = x"
  by (cases i) simp_all

lemma scripted_single: "fetch (scripted [x]) req w = (x, Suc w)"
  by (auto simp: scripted_def split: list.splits dest: drop_singleton_head)

lemma scripted_times_out:
  "always_times_out (scripted [Rejected ''AbortError'' m]) m"
  by (auto simp: always_times_out_def scripted_def split: list.splits dest: drop_singleton_head)

lemma shipped_retry:
  "MAX_ATTEMPTS (RETRY API_CONFIG) = 3" "DELAY (RETRY API_CONFIG) = 1000"
  by (simp_all add: API_CONFIG_def)

lemma upt_1_4: "[1..<Suc 3] = [1, 2, 3]"
  by (simp add: upt_rec)

section \<open>Resolving endpoints\<close>

lemma documented_all:
  "list_all (\<lambda>(key, path). get_property (endpointMap API_CONFIG) key = Own path
                \<and> path \<noteq> [] \<and> CHR ''?'' \<notin> set path) documented_endpoints"
  by (simp add: documented_endpoints_def get_property_def endpointMap_def API_CONFIG_def)

lemma documented_lookup:
  assumes "(key, path) \<in> set documented_endpoints"
  shows "get_property (endpointMap API_CONFIG) key = Own path \<and> path \<noteq> [] \<and> CHR ''?'' \<notin> set path"
  using documented_all assms unfolding list_all_iff by blast

lemma getChartData_live_own:
  assumes "get_property (endpointMap cfg) key = Own path" and "path \<noteq> []"
  shows "getChartData rt cfg False key filters w
           = (case fetchData rt cfg
                     (path @ (if URLSearchParams_toString filters \<noteq> []
                              then ''?'' @ URLSearchParams_toString filters else []))
                     no_options 0 w of
                (r, evs, w') \<Rightarrow> (map_completion Envelope r, evs, w'))"
  using assms by (simp add: getChartData_def Let_def)

lemma events_of_wrapped:
  "events_of (case x of (r, evs, w') \<Rightarrow> (map_completion Envelope r, evs, w')) = events_of x"
  "events_of (case x of (r, y) \<Rightarrow> (map_completion Envelope r, y)) = events_of x"
  by (cases x; simp add: events_of_def)+

lemma URLSearchParams_empty: "URLSearchParams_toString [] = []"
  by (simp add: URLSearchParams_toString_def)

lemma intercalate_nonempty: "x \<noteq> [] \<Longrightarrow> intercalate sep (x # xs) \<noteq> []"
  by (cases xs) simp_all

lemma URLSearchParams_nonempty: "filters \<noteq> [] \<Longrightarrow> URLSearchParams_toString filters \<noteq> []"
  by (cases filters) (auto simp: URLSearchParams_toString_def intro!: intercalate_nonempty)

lemma getChartData_live_urls:
  assumes "u \<in> set (fetched_urls (events_of (getChartData rt cfg False key filters w)))"
  shows "u = BASE_URL cfg @ endpoint_text rt (get_property (endpointMap cfg) key)
               @ (if URLSearchParams_toString filters \<noteq> []
                  then ''?'' @ URLSearchParams_toString filters else [])"
proof (cases "endpoint_truthy (get_property (endpointMap cfg) key)")
  case False
  with assms show ?thesis
    by (simp add: getChartData_def Let_def events_of_def)
next
  case True
  with assms show ?thesis
    by (simp add: getChartData_def Let_def events_of_wrapped fetchData_urls)
qed

lemma endpoint_text_fetch_update:
  "endpoint_text (rt\<lparr>fetch := f\<rparr>) p = endpoint_text rt p"
  by (induction rt p rule: endpoint_text.induct) simp_all

lemma example_query: "URLSearchParams_toString [(''year'', ''2024''), (''region'', ''NTT 1'')]
                        = ''year=2024&region=NTT+1''"
  by (simp add: URLSearchParams_toString_def form_encode_def encode_byte_def form_safe_def)

lemma example_live_urls:
  "set (fetched_urls (events_of
      (getChartData rt API_CONFIG False ''ipm'' [(''year'', ''2024''), (''region'', ''NTT 1'')] w)))
     = {''http://localhost:3000/api/ipm?year=2024&region=NTT+1''}"
proof -
  have "(''ipm'', ''/ipm'') \<in> set documented_endpoints"
    by (simp add: documented_endpoints_def)
  from documented_lookup[OF this]
  have own: "get_property (endpointMap API_CONFIG) ''ipm'' = Own ''/ipm''" and ne: "''/ipm'' \<noteq> []"
    by simp_all
  have b: "BASE_URL API_CONFIG = ''http://localhost:3000/api''"
    by (simp add: API_CONFIG_def)
  show ?thesis
    unfolding getChartData_live_own[OF own ne] example_query events_of_wrapped fetchData_urls b
    by simp
qed

section \<open>The retry controller\<close>

text \<open>
  Claim C1, as amended. For a request executor that times out on every call,
  \<open>fetchData\<close> makes the initial call and then \<open>MAX_ATTEMPTS\<close> retries, that is
  \<open>MAX_ATTEMPTS + 1\<close> network calls in all, sleeps \<open>DELAY * 1\<close>, \<open>DELAY * 2\<close>, ...,
  \<open>DELAY * MAX_ATTEMPTS\<close> before the retries, and returns the failure envelope built
  from the last timeout error.
\<close>

theorem fetchData_timeout_retries:
  assumes "always_times_out rt m"
  shows "result_of (fetchData rt cfg endpoint options 0 w)
           = Returned (error_response (platform_error ''AbortError'' m))
       \<and> events_of (fetchData rt cfg endpoint options 0 w)
           = retry_schedule (build_request cfg endpoint options)
               (DELAY (RETRY cfg)) (MAX_ATTEMPTS (RETRY cfg))
       \<and> length (fetched_urls (events_of (fetchData rt cfg endpoint options 0 w)))
           = MAX_ATTEMPTS (RETRY cfg) + 1
       \<and> sleeps (events_of (fetchData rt cfg endpoint options 0 w))
           = map (\<lambda>k. DELAY (RETRY cfg) * k) [1..<Suc (MAX_ATTEMPTS (RETRY cfg))]"
proof -
  have ev: "result_of (fetchData rt cfg endpoint options 0 w)
           = Returned (error_response (platform_error ''AbortError'' m))
       \<and> events_of (fetchData rt cfg endpoint options 0 w)
           = retry_schedule (build_request cfg endpoint options)
               (DELAY (RETRY cfg)) (MAX_ATTEMPTS (RETRY cfg))"
    using fetchData_exhausts[of rt cfg endpoint options "platform_error ''AbortError'' m" 0 w]
      try_block_times_out[OF assms] retryable_abort
    by (simp add: retry_schedule_def)
  then show ?thesis
    by (simp add: fetched_urls_retry_schedule sleeps_retry_schedule)
qed

theorem fetchData_timeout_retries_witness:
  "always_times_out (scripted [Rejected ''AbortError'' ''The operation was aborted.''])
     ''The operation was aborted.''
   \<and> result_of (fetchData (scripted [Rejected ''AbortError'' ''The operation was aborted.''])
                  API_CONFIG ''/kpi'' no_options 0 0)
       = Returned (Failure \<lparr>error_message = ''The operation was aborted.'',
                            error_status = Some 0, error_data = Some JNull\<rparr>)
   \<and> length (fetched_urls (events_of
         (fetchData (scripted [Rejected ''AbortError'' ''The operation was aborted.''])
            API_CONFIG ''/kpi'' no_options 0 0))) = 4
   \<and> sleeps (events_of
         (fetchData (scripted [Rejected ''AbortError'' ''The operation was aborted.''])
            API_CONFIG ''/kpi'' no_options 0 0)) = [1000, 2000, 3000]"
proof -
  let ?m = "''The operation was aborted.''"
  let ?r = "fetchData (scripted [Rejected ''AbortError'' ?m]) API_CONFIG ''/kpi'' no_options 0 0"
  have h: "always_times_out (scripted [Rejected ''AbortError'' ?m]) ?m"
    by (rule scripted_times_out)
  from fetchData_timeout_retries [OF h, of API_CONFIG "''/kpi''" no_options 0]
  have r: "result_of ?r = Returned (error_response (platform_error ''AbortError'' ?m))"
    and n: "length (fetched_urls (events_of ?r)) = MAX_ATTEMPTS (RETRY API_CONFIG) + 1"
    and s: "sleeps (events_of ?r)
              = map (\<lambda>k. DELAY (RETRY API_CONFIG) * k) [1..<Suc (MAX_ATTEMPTS (RETRY API_CONFIG))]"
    by blast+
  show ?thesis
    unfolding r n s shipped_retry upt_1_4 using h
    by (simp add: error_response_def platform_error_def)
qed

text \<open>
  The claim as the specification words it (exactly \<open>MAX_ATTEMPTS\<close> calls in all) fails
  for the shipped configuration: the executor is called four times, not three.
\<close>

theorem fetchData_timeout_attempts_counterexample:
  "MAX_ATTEMPTS (RETRY API_CONFIG) = 3
   \<and> length (fetched_urls (events_of
         (fetchData (scripted [Rejected ''AbortError'' ''The operation was aborted.''])
            API_CONFIG ''/kpi'' no_options 0 0))) = 4"
proof -
  let ?rt = "scripted [Rejected ''AbortError'' ''The operation was aborted.'']"
  let ?req = "build_request API_CONFIG ''/kpi'' no_options"
  have "events_of (fetchData ?rt API_CONFIG ''/kpi'' no_options 0 0)
          = retry_schedule ?req (DELAY (RETRY API_CONFIG)) (MAX_ATTEMPTS (RETRY API_CONFIG))"
    using fetchData_exhausts [of ?rt API_CONFIG "''/kpi''" no_options
        "platform_error ''AbortError'' ''The operation was aborted.''" 0 0]
      try_block_times_out [OF scripted_times_out] retryable_abort
    by (simp add: retry_schedule_def)
  then show ?thesis
    by (simp add: fetched_urls_retry_schedule shipped_retry)
qed

text \<open>
  A response with a failure status is returned at once, with its status, after one
  network call, provided that its body finishes, is not the JSON value \<open>null\<close>, and
  carries a message that converts to a string.
\<close>

lemma fetchData_status_failure:
  assumes "fetch rt (build_request cfg endpoint options) w = (Responded st b, w')"
    and "\<not> response_ok st"
    and "error_body b = Some errorData" and "errorData \<noteq> JNull"
    and "error_text rt st (json_member ''message'' errorData) = Some msg"
  shows "fetchData rt cfg endpoint options retryCount w
           = (Returned (error_response (APIError msg st errorData)),
              [Fetch (build_request cfg endpoint options)], w')
       \<and> (\<exists>m d. error_response (APIError msg st errorData)
             = Failure \<lparr>error_message = m, error_status = Some st, error_data = Some d\<rparr>)"
proof -
  have "\<not> (retryCount < MAX_ATTEMPTS (RETRY cfg) \<and> retryable (APIError msg st errorData))"
    by (simp add: not_retryable_APIError)
  from fetchData_give_up[OF try_block_status_failure[OF assms] this]
    error_response_APIError[of msg st errorData]
  show ?thesis by simp
qed

text \<open>
  Claim C2 at a failing input. The server answers 500 with the JSON body \<open>null\<close>.
  Reading \<open>errorData.message\<close> throws a \<open>TypeError\<close> inside the \<open>try\<close> block, the
  \<open>catch\<close> block takes it for a transport failure and retries: four network calls
  are made instead of one, and the envelope returned has status 0, not 500.
\<close>

theorem fetchData_null_error_body_retried:
  "result_of (fetchData (scripted [Responded 500 (Parsed JNull)]) API_CONFIG ''/kpi'' no_options 0 0)
     = Returned (Failure \<lparr>
         error_message = ''Cannot read properties of null (reading '' @ [CHR 0x27]
                           @ ''message'' @ [CHR 0x27] @ '')'',
         error_status = Some 0, error_data = Some JNull\<rparr>)
   \<and> length (fetched_urls (events_of
        (fetchData (scripted [Responded 500 (Parsed JNull)]) API_CONFIG ''/kpi'' no_options 0 0)))
       = 4"
proof -
  let ?rt = "scripted [Responded 500 (Parsed JNull)]"
  let ?req = "build_request API_CONFIG ''/kpi'' no_options"
  let ?e = "platform_error ''TypeError'' (null_read_message ?rt ''message'')"
  have "fst (try_block ?rt ?req w) = Threw ?e" for w
    using try_block_null_body[OF scripted_single, of 500 ?req w]
    by (simp add: response_ok_def)
  from fetchData_exhausts[of ?rt API_CONFIG "''/kpi''" no_options ?e 0 0, OF this retryable_type_error]
  have "result_of (fetchData ?rt API_CONFIG ''/kpi'' no_options 0 0) = Returned (error_response ?e)"
    and "events_of (fetchData ?rt API_CONFIG ''/kpi'' no_options 0 0)
          = retry_schedule ?req (DELAY (RETRY API_CONFIG)) (MAX_ATTEMPTS (RETRY API_CONFIG))"
    by (simp_all add: retry_schedule_def)
  then show ?thesis
    by (simp add: fetched_urls_retry_schedule shipped_retry error_response_def
        platform_error_def scripted_def)
qed

text \<open>
  The same happens when the body's \<open>message\<close> is an object with a member named
  \<open>toString\<close>: \<open>super(message)\<close> throws a \<open>TypeError\<close>, which is retried.
\<close>

lemma fetchData_unprintable_message_retried:
  "result_of (fetchData
       (scripted [Responded 500 (Parsed (JObj [(''message'', JObj [(''toString'', JNum 1)])]))])
       API_CONFIG ''/kpi'' no_options 0 0)
     = Returned (Failure \<lparr>error_message = ''Cannot convert object to primitive value'',
                          error_status = Some 0, error_data = Some JNull\<rparr>)
   \<and> length (fetched_urls (events_of (fetchData
       (scripted [Responded 500 (Parsed (JObj [(''message'', JObj [(''toString'', JNum 1)])]))])
       API_CONFIG ''/kpi'' no_options 0 0))) = 4"
proof -
  let ?body = "JObj [(''message'', JObj [(''toString'', JNum 1)])]"
  let ?rt = "scripted [Responded 500 (Parsed ?body)]"
  let ?req = "build_request API_CONFIG ''/kpi'' no_options"
  let ?e = "platform_error ''TypeError'' (to_primitive_message ?rt)"
  have "error_text ?rt 500 (json_member ''message'' ?body) = None"
    by (simp add: error_text_def)
  then have "fst (try_block ?rt ?req w) = Threw ?e" for w
    using try_block_unprintable_message[OF scripted_single, of 500 "Parsed ?body" ?body ?req w]
    by (simp add: response_ok_def)
  from fetchData_exhausts[of ?rt API_CONFIG "''/kpi''" no_options ?e 0 0, OF this retryable_type_error]
  have "result_of (fetchData ?rt API_CONFIG ''/kpi'' no_options 0 0) = Returned (error_response ?e)"
    and "events_of (fetchData ?rt API_CONFIG ''/kpi'' no_options 0 0)
          = retry_schedule ?req (DELAY (RETRY API_CONFIG)) (MAX_ATTEMPTS (RETRY API_CONFIG))"
    by (simp_all add: retry_schedule_def)
  then show ?thesis
    by (simp add: fetched_urls_retry_schedule shipped_retry error_response_def
        platform_error_def scripted_def)
qed

text \<open>
  Claim C3. If the first network call fails with a timeout (\<open>AbortError\<close>) or a
  transport failure (\<open>TypeError\<close>) and the second yields a 2xx response with a
  parsable body, \<open>fetchData\<close> returns the success envelope after exactly two calls,
  with one sleep of \<open>DELAY\<close> between them.
\<close>

theorem fetchData_retry_then_success:
  assumes "0 < MAX_ATTEMPTS (RETRY cfg)"
    and "fetch rt (build_request cfg endpoint options) w = (Rejected n m, w1)"
    and "n = ''AbortError'' \<or> n = ''TypeError''"
    and "fetch rt (build_request cfg endpoint options) w1 = (Responded st (Parsed d), w2)"
    and "response_ok st"
  shows "fetchData rt cfg endpoint options 0 w
           = (Returned (Success d),
              [Fetch (build_request cfg endpoint options),
               Sleep (DELAY (RETRY cfg)),
               Fetch (build_request cfg endpoint options)],
              w2)"
proof -
  have second: "fetchData rt cfg endpoint options (Suc 0) w1
                  = (Returned (Success d), [Fetch (build_request cfg endpoint options)], w2)"
    using assms(4,5) by (simp add: fetchData_success try_block_parsed)
  have "retryable (platform_error n m)"
    using assms(3) by (auto simp: retryable_def platform_error_def)
  from fetchData_retry[OF try_block_rejected[OF assms(2)] assms(1) this second]
  show ?thesis by simp
qed

theorem fetchData_retry_then_success_witness:
  "fetchData (scripted [Rejected ''TypeError'' ''Failed to fetch'',
                        Responded 200 (Parsed (JObj [(''title'', JStr ''IPM'')]))])
     API_CONFIG ''/ipm'' no_options 0 0
   = (Returned (Success (JObj [(''title'', JStr ''IPM'')])),
      [Fetch (build_request API_CONFIG ''/ipm'' no_options),
       Sleep 1000,
       Fetch (build_request API_CONFIG ''/ipm'' no_options)],
      2)"
proof -
  let ?rt = "scripted [Rejected ''TypeError'' ''Failed to fetch'',
                       Responded 200 (Parsed (JObj [(''title'', JStr ''IPM'')]))]"
  let ?req = "build_request API_CONFIG ''/ipm'' no_options"
  have 1: "0 < MAX_ATTEMPTS (RETRY API_CONFIG)" by (simp add: shipped_retry)
  have 2: "fetch ?rt ?req 0 = (Rejected ''TypeError'' ''Failed to fetch'', 1)"
    by (simp add: scripted_def)
  have 3: "''TypeError'' = ''AbortError'' \<or> ''TypeError'' = ''TypeError''" by simp
  have 4: "fetch ?rt ?req 1 = (Responded 200 (Parsed (JObj [(''title'', JStr ''IPM'')])), 2)"
    by (simp add: scripted_def)
  have 5: "response_ok 200" by (simp add: response_ok_def)
  from fetchData_retry_then_success[OF 1 2 3 4 5] show ?thesis
    by (simp add: shipped_retry)
qed




section \<open>The endpoint resolver\<close>

text \<open>
  Claim C4. In live mode, for every key of the documented table, \<open>getChartData\<close>
  with an empty filter set calls \<open>fetchData\<close> with exactly the documented path:
  every request goes to the base URL followed by that path, which has no query string.
\<close>

theorem getChartData_documented_endpoint:
  assumes "(key, path) \<in> set documented_endpoints"
  shows "getChartData rt API_CONFIG False key [] w
           = (case fetchData rt API_CONFIG path no_options 0 w of
                (r, evs, w') \<Rightarrow> (map_completion Envelope r, evs, w'))
       \<and> set (fetched_urls (events_of (getChartData rt API_CONFIG False key [] w)))
           = {BASE_URL API_CONFIG @ path}
       \<and> CHR ''?'' \<notin> set path"
proof -
  from documented_lookup[OF assms]
  have own: "get_property (endpointMap API_CONFIG) key = Own path" and ne: "path \<noteq> []"
    and q: "CHR ''?'' \<notin> set path"
    by simp_all
  have eq: "getChartData rt API_CONFIG False key [] w
           = (case fetchData rt API_CONFIG path no_options 0 w of
                (r, evs, w') \<Rightarrow> (map_completion Envelope r, evs, w'))"
    using getChartData_live_own[OF own ne, of rt "[]" w] by (simp add: URLSearchParams_empty)
  show ?thesis
    using q by (simp add: eq events_of_wrapped fetchData_urls)
qed

theorem getChartData_documented_endpoint_witness:
  "(''tpak'', ''/ketenagakerjaan/tpak-tahunan'') \<in> set documented_endpoints
   \<and> set (fetched_urls (events_of
        (getChartData (scripted [Responded 200 (Parsed (JObj []))]) API_CONFIG False ''tpak'' [] 0)))
       = {''http://localhost:3000/api/ketenagakerjaan/tpak-tahunan''}"
proof -
  have h: "(''tpak'', ''/ketenagakerjaan/tpak-tahunan'') \<in> set documented_endpoints"
    by (simp add: documented_endpoints_def)
  have b: "BASE_URL API_CONFIG @ ''/ketenagakerjaan/tpak-tahunan''
             = ''http://localhost:3000/api/ketenagakerjaan/tpak-tahunan''"
    by (simp add: API_CONFIG_def)
  from getChartData_documented_endpoint[OF h, of "scripted [Responded 200 (Parsed (JObj []))]" 0]
  have "set (fetched_urls (events_of
        (getChartData (scripted [Responded 200 (Parsed (JObj []))]) API_CONFIG False ''tpak'' [] 0)))
       = {BASE_URL API_CONFIG @ ''/ketenagakerjaan/tpak-tahunan''}"
    by blast
  with h show ?thesis unfolding b by blast
qed

text \<open>
  Claim C5. In live mode, for a non-empty filter set, any two runs of
  \<open>getChartData\<close> with the same key and the same filters, whatever the network does
  and whatever happened before, request the same URL on every attempt: the query
  string is \<open>URLSearchParams_toString filters\<close> both times.
\<close>

theorem query_string_deterministic:
  assumes "filters \<noteq> []"
    and "u1 \<in> set (fetched_urls (events_of
                 (getChartData (rt\<lparr>fetch := f1\<rparr>) cfg False key filters w1)))"
    and "u2 \<in> set (fetched_urls (events_of
                 (getChartData (rt\<lparr>fetch := f2\<rparr>) cfg False key filters w2)))"
  shows "u1 = u2
       \<and> u1 = BASE_URL cfg @ endpoint_text rt (get_property (endpointMap cfg) key)
                @ ''?'' @ URLSearchParams_toString filters"
  using getChartData_live_urls[OF assms(2)] getChartData_live_urls[OF assms(3)]
    URLSearchParams_nonempty[OF assms(1)]
  by (simp add: endpoint_text_fetch_update)

theorem query_string_deterministic_witness:
  "[(''year'', ''2024''), (''region'', ''NTT 1'')] \<noteq> []
   \<and> ''http://localhost:3000/api/ipm?year=2024&region=NTT+1''
       \<in> set (fetched_urls (events_of
             (getChartData (scripted []\<lparr>fetch := fetch (scripted [Responded 200 (Parsed JNull)])\<rparr>)
                API_CONFIG False ''ipm'' [(''year'', ''2024''), (''region'', ''NTT 1'')] 0)))
   \<and> ''http://localhost:3000/api/ipm?year=2024&region=NTT+1''
       \<in> set (fetched_urls (events_of
             (getChartData (scripted []\<lparr>fetch := fetch (scripted [Rejected ''TypeError'' ''Failed to fetch''])\<rparr>)
                API_CONFIG False ''ipm'' [(''year'', ''2024''), (''region'', ''NTT 1'')] 7)))
   \<and> ''http://localhost:3000/api/ipm?year=2024&region=NTT+1''
       = BASE_URL API_CONFIG @ endpoint_text (scripted []) (get_property (endpointMap API_CONFIG) ''ipm'')
           @ ''?'' @ URLSearchParams_toString [(''year'', ''2024''), (''region'', ''NTT 1'')]"
proof -
  let ?F = "[(''year'', ''2024''), (''region'', ''NTT 1'')]"
  let ?u = "''http://localhost:3000/api/ipm?year=2024&region=NTT+1''"
  have 1: "?F \<noteq> []" by simp
  have 2: "?u \<in> set (fetched_urls (events_of
             (getChartData (scripted []\<lparr>fetch := fetch (scripted [Responded 200 (Parsed JNull)])\<rparr>)
                API_CONFIG False ''ipm'' ?F 0)))"
    unfolding example_live_urls by simp
  have 3: "?u \<in> set (fetched_urls (events_of
             (getChartData (scripted []\<lparr>fetch := fetch (scripted [Rejected ''TypeError'' ''Failed to fetch''])\<rparr>)
                API_CONFIG False ''ipm'' ?F 7)))"
    unfolding example_live_urls by simp
  from query_string_deterministic[OF 1 2 3] 1 2 3 show ?thesis by blast
qed

text \<open>
  A key that is neither in the endpoint table nor a member of \<open>Object.prototype\<close>
  is answered locally, with no network call and a message that ends with the key.
\<close>

lemma getChartData_unknown_key:
  assumes "map_of (endpointMap cfg) key = None" and "map_of Object_prototype key = None"
  shows "getChartData rt cfg False key filters w
           = (Returned (Envelope (Failure \<lparr>
                error_message = ''Unknown visualization type: '' @ key,
                error_status = None, error_data = None\<rparr>)), [], w)"
  using assms by (simp add: getChartData_def get_property_def)

text \<open>
  Claim C6 at a failing input. The key \<open>toString\<close> is absent from the endpoint
  table, but \<open>endpointMap[visualizationType]\<close> finds the inherited function, which is
  truthy, so \<open>getChartData\<close> goes on and makes a network call to the base URL
  followed by the text of that function.
\<close>

theorem getChartData_inherited_key_fetches:
  "map_of (endpointMap API_CONFIG) ''toString'' = None
   \<and> set (fetched_urls (events_of (getChartData rt API_CONFIG False ''toString'' [] w)))
       = {BASE_URL API_CONFIG @ function_to_string rt ''toString''}"
proof -
  have absent: "map_of (endpointMap API_CONFIG) ''toString'' = None"
    by (simp add: endpointMap_def)
  have "map_of Object_prototype ''toString'' = Some (NativeFunction ''toString'')"
    by (simp add: Object_prototype_def)
  with absent have "get_property (endpointMap API_CONFIG) ''toString''
                      = Inherited (NativeFunction ''toString'')"
    by (simp add: get_property_def)
  then have "getChartData rt API_CONFIG False ''toString'' [] w
           = (case fetchData rt API_CONFIG (function_to_string rt ''toString'') no_options 0 w of
                (r, evs, w') \<Rightarrow> (map_completion Envelope r, evs, w'))"
    by (simp add: getChartData_def URLSearchParams_empty)
  with absent show ?thesis
    by (simp add: events_of_wrapped fetchData_urls)
qed

section \<open>The mock data provider\<close>

text \<open>
  Claim C8. In mock mode the key \<open>ntp-bulanan\<close> yields, after a sleep of 500 ms, a
  success envelope whose \<open>labels\<close> and \<open>values\<close> are arrays of length 12.
\<close>

theorem mock_ntp_bulanan_lengths:
  "\<exists>d ls vs. getChartData rt cfg True ''ntp-bulanan'' filters w
                 = (Returned (Envelope (Success d)), [Sleep 500], w)
     \<and> json_member ''labels'' d = Some (JArr ls) \<and> length ls = 12
     \<and> json_member ''values'' d = Some (JArr vs) \<and> length vs = 12"
  by (simp add: getChartData_def getMockChartData_def get_property_def mockData_def
      single_series_def labels_of_def values_of_def months_def)

text \<open>
  In mock mode a key that is neither in the mock table nor a member of
  \<open>Object.prototype\<close> yields, after the sleep, a failure whose message ends with the key.
\<close>

lemma getMockChartData_unknown_key:
  assumes "map_of mockData key = None" and "map_of Object_prototype key = None"
  shows "getChartData rt cfg True key filters w
           = (Returned (Envelope (Failure \<lparr>
                error_message = ''Mock data not found for: '' @ key,
                error_status = None, error_data = None\<rparr>)), [Sleep 500], w)"
  using assms by (simp add: getChartData_def getMockChartData_def get_property_def)

text \<open>
  Claim C9 at a failing input. The key \<open>toString\<close> is absent from the mock table,
  but \<open>mockData[visualizationType]\<close> finds the inherited function, which is truthy,
  so after the sleep \<open>getChartData\<close> returns that function and not a failure envelope.
\<close>

theorem mock_inherited_key_not_failure:
  "map_of mockData ''toString'' = None
   \<and> getChartData rt cfg True ''toString'' filters w
       = (Returned (Member (NativeFunction ''toString'')), [Sleep 500], w)"
proof -
  have absent: "map_of mockData ''toString'' = None"
    by (simp add: mockData_def)
  have "map_of Object_prototype ''toString'' = Some (NativeFunction ''toString'')"
    by (simp add: Object_prototype_def)
  with absent show ?thesis
    by (simp add: getChartData_def getMockChartData_def get_property_def)
qed

text \<open>
  Claim C10. In mock mode the value returned by \<open>getChartData\<close> and its effects
  do not depend on the filter set, nor on the network or the configuration.
\<close>

theorem mock_ignores_filters:
  "result_of (getChartData rt1 cfg1 True key f1 w1) = result_of (getChartData rt2 cfg2 True key f2 w2)
   \<and> events_of (getChartData rt1 cfg1 True key f1 w1) = events_of (getChartData rt2 cfg2 True key f2 w2)"
  by (simp add: getChartData_def getMockChartData_def result_of_def events_of_def)

end
